theory Spec2Isabelle
  imports Complex_Main
begin

section \<open>The EMA cross strategy: bar handler, bracket entry and trailing stops\<close>

text \<open>
  A shallow embedding of \<^verbatim>\<open>examples/strategies/ema_cross.py\<close> (class
  \<^verbatim>\<open>EMACross\<close>): the bar handler \<^verbatim>\<open>on_bar\<close>, the signal check, the
  two entry routines and the trailing stop sweep.

  Conventions of the embedding.
  \<^item> Python floats are idealised as \<^typ>\<open>real\<close>: comparisons and the four operations
    are exact. Nothing below speaks about binary rounding or NaN.
  \<^item> The fields of \<^verbatim>\<open>self\<close> that the handler reads are the record \<open>EMACross\<close>.
    What the handler reads from the framework during one call (indicator values,
    working orders, account) is the snapshot \<open>Env\<close>; one call sees one snapshot.
  \<^item> The handler returns the list of calls it makes on its collaborators, in order:
    log lines, the call of the position sizer, the submission of a bracket order and
    the modification of a working order. An early \<^verbatim>\<open>return\<close> ends the list.
  \<^item> The only exception the source handles, the \<^verbatim>\<open>ValueError\<close> of the exchange
    rate lookup, is the \<open>Inl\<close> branch of the lookup's result. Timestamps are
    unbounded integers (microseconds), so the overflow of a date beyond year 9999 is
    outside the model.
\<close>

subsection \<open>Prices\<close>

text \<open>
  Modelled from the spec: the class \<^verbatim>\<open>Price\<close> (module
  \<^verbatim>\<open>nautilus_trader.model.objects\<close>) is not among the sources. The spec calls a
  price a fixed-precision decimal (section 3) and says that every price is rounded to
  the instrument's price precision (section 4.3). A price is therefore a whole number
  of units of \<open>10 ^ -precision\<close>, and constructing one from a float rounds to the
  nearest such unit, a tie going to the even neighbour (what Python's
  \<^verbatim>\<open>round(value, precision)\<close> does).
\<close>

record Price =
  mantissa :: int
  prec :: nat

definition as_double :: "Price \<Rightarrow> real" where
  "as_double p = real_of_int (mantissa p) / 10 ^ prec p"

definition round_half_even :: "real \<Rightarrow> int" where
  "round_half_even x =
     (let f = \<lfloor>x\<rfloor>; d = x - real_of_int f
      in if d < 1 / 2 then f
         else if 1 / 2 < d then f + 1
         else if even f then f else f + 1)"

definition Price :: "real \<Rightarrow> nat \<Rightarrow> Price" where
  "Price v p = \<lparr>mantissa = round_half_even (v * 10 ^ p), prec = p\<rparr>"

definition gt :: "Price \<Rightarrow> Price \<Rightarrow> bool" where
  "gt a b = (as_double b < as_double a)"

definition lt :: "Price \<Rightarrow> Price \<Rightarrow> bool" where
  "lt a b = (as_double a < as_double b)"

subsection \<open>Bars, orders and the calls on the collaborators\<close>

datatype OrderSide = UNDEFINED | BUY | SELL

datatype PriceType = BID | ASK | MID | LAST

datatype TimeInForce = DAY | GTC | IOC | FOC | GTD

datatype OrderType = MARKET | LIMIT | STOP

type_synonym datetime = int

definition timedelta :: "int \<Rightarrow> int" where
  \<comment> \<open>\<^verbatim>\<open>timedelta(minutes=m)\<close>, in microseconds\<close>
  "timedelta minutes = minutes * 60000000"

record Bar =
  opn :: Price
  high :: Price
  low :: Price
  close :: Price
  timestamp :: datetime

text \<open>A working order, as the sweep reads it: its identifier, side, price and quantity.\<close>

record Order =
  cl_ord_id :: string
  side :: OrderSide
  price :: Price
  quantity :: nat

definition is_sell :: "Order \<Rightarrow> bool" where
  "is_sell order = (side order = SELL)"

definition is_buy :: "Order \<Rightarrow> bool" where
  "is_buy order = (side order = BUY)"

text \<open>
  The order that \<^verbatim>\<open>order_factory.stop(...)\<close> is asked to build: the keyword arguments of
  the call (the quantity and the price are named \<open>entry_quantity\<close> and \<open>entry_price\<close>
  here, \<open>quantity\<close> and \<open>price\<close> being fields of a working order), and the order type
  of the factory method.
\<close>

record StopOrder =
  order_type :: OrderType
  symbol :: string
  order_side :: OrderSide
  entry_quantity :: nat
  entry_price :: Price
  time_in_force :: TimeInForce
  expire_time :: datetime

definition order_factory_stop ::
  "string \<Rightarrow> OrderSide \<Rightarrow> nat \<Rightarrow> Price \<Rightarrow> TimeInForce \<Rightarrow> datetime \<Rightarrow> StopOrder" where
  "order_factory_stop smb sd qty p tif expire =
     \<lparr>order_type = STOP, symbol = smb, order_side = sd, entry_quantity = qty,
      entry_price = p, time_in_force = tif, expire_time = expire\<rparr>"

record BracketOrder =
  entry_order :: StopOrder
  stop_loss :: Price
  take_profit :: Price

definition order_factory_bracket :: "StopOrder \<Rightarrow> Price \<Rightarrow> Price \<Rightarrow> BracketOrder" where
  "order_factory_bracket entry sl tp = \<lparr>entry_order = entry, stop_loss = sl, take_profit = tp\<rparr>"

text \<open>The keyword arguments of \<^verbatim>\<open>position_sizer.calculate(...)\<close>.\<close>

record SizerArgs =
  arg_equity :: real
  arg_risk_bp :: real
  arg_entry :: Price
  arg_stop_loss :: Price
  arg_exchange_rate :: real
  arg_commission_rate_bp :: real
  arg_hard_limit :: nat
  arg_units :: nat
  arg_unit_batch_size :: nat

datatype event =
    Log_info string
  | Log_warning string
  | Log_error string
  | Calculate SizerArgs
  | Submit_bracket_order BracketOrder
  | Modify_order Order nat Price

fun is_log :: "event \<Rightarrow> bool" where
  "is_log (Log_info m) = True"
| "is_log (Log_warning m) = True"
| "is_log (Log_error m) = True"
| "is_log (Calculate a) = False"
| "is_log (Submit_bracket_order b) = False"
| "is_log (Modify_order order qty p) = False"

subsection \<open>The strategy and the snapshot it reads\<close>

record EMACross =
  strategy_symbol :: string
  precision :: nat
  risk_bp :: real
  entry_buffer :: real
  SL_atr_multiple :: real
  quote_currency :: string

record Env =
  indicators_initialized :: bool
  has_quote_ticks :: "string \<Rightarrow> bool"
  spread_analyzer_average :: real
  spread_analyzer_current :: real
  atr_value :: real
  fast_ema_value :: real
  slow_ema_value :: real
  orders_working :: "Order list"
  is_flat :: bool
  is_stop_loss :: "string \<Rightarrow> bool"
  get_exchange_rate_for_account :: "string \<Rightarrow> PriceType \<Rightarrow> string + real"
  free_equity :: real
  position_sizer_calculate :: "SizerArgs \<Rightarrow> nat"

text \<open>
  \<^verbatim>\<open>orders_working()\<close> is a dictionary from order identifiers to orders; the sweep
  walks its values in order, so the snapshot holds them as a list.
  \<^verbatim>\<open>orders_working_count()\<close> is the number of its entries.
\<close>

definition orders_working_count :: "Env \<Rightarrow> nat" where
  "orders_working_count e = length (orders_working e)"

subsection \<open>Entries\<close>

definition exchange_rate_lookup :: "EMACross \<Rightarrow> Env \<Rightarrow> PriceType \<Rightarrow> event list \<times> real" where
  \<comment> \<open>\<^verbatim>\<open>exchange_rate = 0.0; try: exchange_rate = ... except ValueError as ex: log.error(ex)\<close>\<close>
  "exchange_rate_lookup s e pt =
     (case get_exchange_rate_for_account e (quote_currency s) pt of
        Inl ex \<Rightarrow> ([Log_error ex], 0)
      | Inr r \<Rightarrow> ([], r))"

definition sizer_args :: "EMACross \<Rightarrow> Env \<Rightarrow> Price \<Rightarrow> Price \<Rightarrow> real \<Rightarrow> SizerArgs" where
  "sizer_args s e price_entry price_stop_loss exchange_rate =
     \<lparr>arg_equity = free_equity e, arg_risk_bp = risk_bp s, arg_entry = price_entry,
      arg_stop_loss = price_stop_loss, arg_exchange_rate = exchange_rate,
      arg_commission_rate_bp = 15 / 100, arg_hard_limit = 20000000, arg_units = 1,
      arg_unit_batch_size = 10000\<rparr>"

definition enter_long :: "EMACross \<Rightarrow> Env \<Rightarrow> Bar \<Rightarrow> real \<Rightarrow> real \<Rightarrow> event list" where
  "enter_long s e bar sl_buffer spread_buffer =
     (let price_entry = Price (as_double (high bar) + entry_buffer s + spread_buffer) (precision s);
          price_stop_loss = Price (as_double (low bar) - sl_buffer) (precision s);
          risk = as_double price_entry - as_double price_stop_loss;
          price_take_profit = Price (as_double price_entry + risk) (precision s);
          (logged, exchange_rate) = exchange_rate_lookup s e ASK
      in logged @
         (if exchange_rate = 0 then []
          else
            let args = sizer_args s e price_entry price_stop_loss exchange_rate;
                position_size = position_sizer_calculate e args
            in Calculate args #
               (if position_size = 0 then [Log_info ''Insufficient equity for BUY signal.'']
                else
                  let entry = order_factory_stop (strategy_symbol s) BUY position_size price_entry
                                GTD (timestamp bar + timedelta 1)
                  in [Submit_bracket_order
                        (order_factory_bracket entry price_stop_loss price_take_profit)])))"

definition enter_short :: "EMACross \<Rightarrow> Env \<Rightarrow> Bar \<Rightarrow> real \<Rightarrow> real \<Rightarrow> event list" where
  "enter_short s e bar sl_buffer spread_buffer =
     (let price_entry = Price (as_double (low bar) - entry_buffer s) (precision s);
          price_stop_loss = Price (as_double (high bar) + sl_buffer + spread_buffer) (precision s);
          risk = as_double price_stop_loss - as_double price_entry;
          price_take_profit = Price (as_double price_entry - risk) (precision s);
          (logged, exchange_rate) = exchange_rate_lookup s e BID
      in logged @
         (if exchange_rate = 0 then []
          else
            let args = sizer_args s e price_entry price_stop_loss exchange_rate;
                position_size = position_sizer_calculate e args
            in Calculate args #
               (if position_size = 0 then [Log_info ''Insufficient equity for SELL signal.'']
                else
                  let entry = order_factory_stop (strategy_symbol s) SELL position_size price_entry
                                GTD (timestamp bar + timedelta 1)
                  in [Submit_bracket_order
                        (order_factory_bracket entry price_stop_loss price_take_profit)])))"

definition check_signal :: "EMACross \<Rightarrow> Env \<Rightarrow> Bar \<Rightarrow> real \<Rightarrow> real \<Rightarrow> event list" where
  "check_signal s e bar sl_buffer spread_buffer =
     (if orders_working_count e = 0 \<and> is_flat e then
        if slow_ema_value e \<le> fast_ema_value e then enter_long s e bar sl_buffer spread_buffer
        else if fast_ema_value e < slow_ema_value e then enter_short s e bar sl_buffer spread_buffer
        else []
      else [])"

subsection \<open>The trailing stop sweep\<close>

text \<open>
  The body of the loop for one order: \<open>None\<close> is the \<^verbatim>\<open>return\<close> of the source (the
  order is not a stop-loss), \<open>Some evs\<close> the calls made before the loop goes on.
\<close>

definition trail_order :: "EMACross \<Rightarrow> Env \<Rightarrow> Bar \<Rightarrow> real \<Rightarrow> real \<Rightarrow> Order \<Rightarrow> event list option" where
  "trail_order s e bar sl_buffer spread_buffer order =
     (if \<not> is_stop_loss e (cl_ord_id order) then None
      else if is_sell order then
        (let temp_price = Price (as_double (low bar) - sl_buffer) (precision s)
         in if gt temp_price (price order)
            then Some [Modify_order order (quantity order) temp_price] else Some [])
      else if is_buy order then
        (let temp_price = Price (as_double (high bar) + sl_buffer + spread_buffer) (precision s)
         in if lt temp_price (price order)
            then Some [Modify_order order (quantity order) temp_price] else Some [])
      else Some [])"

fun sweep :: "EMACross \<Rightarrow> Env \<Rightarrow> Bar \<Rightarrow> real \<Rightarrow> real \<Rightarrow> Order list \<Rightarrow> event list" where
  "sweep s e bar sl_buffer spread_buffer [] = []"
| "sweep s e bar sl_buffer spread_buffer (order # orders) =
     (case trail_order s e bar sl_buffer spread_buffer order of
        None \<Rightarrow> []
      | Some evs \<Rightarrow> evs @ sweep s e bar sl_buffer spread_buffer orders)"

definition check_trailing_stops :: "EMACross \<Rightarrow> Env \<Rightarrow> Bar \<Rightarrow> real \<Rightarrow> real \<Rightarrow> event list" where
  "check_trailing_stops s e bar sl_buffer spread_buffer =
     sweep s e bar sl_buffer spread_buffer (orders_working e)"

subsection \<open>The bar handler\<close>

definition on_bar :: "EMACross \<Rightarrow> Env \<Rightarrow> string \<Rightarrow> Bar \<Rightarrow> event list" where
  "on_bar s e bar_type bar =
     Log_info ''Received Bar'' #
     (if \<not> indicators_initialized e then [Log_info ''Waiting for indicators to warm up...'']
      else if \<not> has_quote_ticks e (strategy_symbol s) then [Log_info ''Waiting for ticks...'']
      else
        let average_spread = spread_analyzer_average e
        in if average_spread = 0 then [Log_warning ''average_spread == 0.0 (not initialized).'']
           else
             let spread_buffer = max average_spread (spread_analyzer_current e);
                 sl_buffer = atr_value e * SL_atr_multiple s;
                 liquidity_ratio = atr_value e / average_spread
             in (if 2 \<le> liquidity_ratio then check_signal s e bar sl_buffer spread_buffer else [])
                @ check_trailing_stops s e bar sl_buffer spread_buffer)"

subsection \<open>The position sizer and the execution side\<close>

text \<open>
  Modelled from the spec: \<^verbatim>\<open>FixedRiskSizer.calculate\<close> (module
  \<^verbatim>\<open>nautilus_trader.trading.sizing\<close>) is not among the sources. Section 4.4 of the
  spec: the risk amount is \<open>equity * riskBasisPoints / 10000\<close>; the risk per unit is
  \<open>|entryPrice - stopLossPrice| * exchangeRate\<close> plus the commission per unit (the
  commission rate in basis points applied to the notional of one unit); a risk per unit
  that is not positive gives quantity 0; otherwise the quotient is rounded down to a
  multiple of the lot size and clamped to the hard limit. The handler itself takes the
  sizer from the snapshot (\<open>position_sizer_calculate\<close>); this definition is one sizer
  that can stand there.
\<close>

definition FixedRiskSizer_calculate :: "SizerArgs \<Rightarrow> nat" where
  "FixedRiskSizer_calculate a =
     (let risk_amount = arg_equity a * arg_risk_bp a / 10000;
          distance = \<bar>as_double (arg_entry a) - as_double (arg_stop_loss a)\<bar>;
          commission = as_double (arg_entry a) * arg_exchange_rate a
                         * arg_commission_rate_bp a / 10000;
          risk_per_unit = distance * arg_exchange_rate a + commission
      in if risk_per_unit \<le> 0 then 0
         else
           let raw_quantity = risk_amount / risk_per_unit;
               lots = nat \<lfloor>raw_quantity / real (arg_unit_batch_size a)\<rfloor> * arg_unit_batch_size a
           in min lots (arg_hard_limit a))"

text \<open>
  Modelled from the spec: the execution side that carries out \<^verbatim>\<open>modify_order\<close> is not
  among the sources. Section 3 of the spec: a working stop leg is mutated in place by the
  trailing stop manager; section 4.6: the replacement changes the price of that leg. A
  modification reaches the working order with the identifier of the order it was called
  on. \<open>run_bars\<close> hands a sequence of bars to the handler, each with its own snapshot of
  indicators and account, the working orders being those the previous bar left.
\<close>

fun apply_modify :: "event \<Rightarrow> Order \<Rightarrow> Order" where
  "apply_modify (Modify_order order qty p) w =
     (if cl_ord_id w = cl_ord_id order then w\<lparr>price := p, quantity := qty\<rparr> else w)"
| "apply_modify (Log_info m) w = w"
| "apply_modify (Log_warning m) w = w"
| "apply_modify (Log_error m) w = w"
| "apply_modify (Calculate a) w = w"
| "apply_modify (Submit_bracket_order b) w = w"

definition orders_after :: "event list \<Rightarrow> Order list \<Rightarrow> Order list" where
  "orders_after evs ws = map (\<lambda>w. fold apply_modify evs w) ws"

fun run_bars :: "EMACross \<Rightarrow> (Env \<times> Bar) list \<Rightarrow> Order list \<Rightarrow> Order list list" where
  "run_bars s [] ws = []"
| "run_bars s ((e, bar) # rest) ws =
     (let ws' = orders_after (on_bar s (e\<lparr>orders_working := ws\<rparr>) ''bar_type'' bar) ws
      in ws' # run_bars s rest ws')"

subsection \<open>Concrete inputs\<close>

text \<open>
  A five-digit instrument with tick size \<open>0.00001\<close> (entry buffer of three ticks), a bar
  with high \<open>1.10500\<close> and low \<open>1.10100\<close>, an average spread of \<open>0.00002\<close> and an
  average true range of \<open>0.00025\<close>: the stop buffer is \<open>0.0005\<close> and the liquidity
  ratio \<open>12.5\<close>.
\<close>

definition px :: "int \<Rightarrow> Price" where
  "px m = \<lparr>mantissa = m, prec = 5\<rparr>"

definition strategy0 :: EMACross where
  "strategy0 = \<lparr>strategy_symbol = ''AUD/USD'', precision = 5, risk_bp = 10,
     entry_buffer = 3 / 100000, SL_atr_multiple = 2, quote_currency = ''USD''\<rparr>"

definition bar0 :: Bar where
  "bar0 = \<lparr>opn = px 110200, high = px 110500, low = px 110100, close = px 110400,
     timestamp = 1600000000000000\<rparr>"

definition env0 :: Env where
  "env0 = \<lparr>indicators_initialized = True, has_quote_ticks = (\<lambda>smb. smb = ''AUD/USD''),
     spread_analyzer_average = 2 / 100000, spread_analyzer_current = 2 / 100000,
     atr_value = 25 / 100000, fast_ema_value = 11 / 10, slow_ema_value = 11 / 10,
     orders_working = [], is_flat = True, is_stop_loss = (\<lambda>i. i = ''O-1-SL''),
     get_exchange_rate_for_account = (\<lambda>ccy pt. Inr 1), free_equity = 100000,
     position_sizer_calculate = FixedRiskSizer_calculate\<rparr>"

definition stop_leg :: Order where
  "stop_leg = \<lparr>cl_ord_id = ''O-1-SL'', side = SELL, price = px 110000, quantity = 50000\<rparr>"

definition profit_leg :: Order where
  "profit_leg = \<lparr>cl_ord_id = ''O-1-TP'', side = SELL, price = px 111000, quantity = 50000\<rparr>"

text \<open>The next bar: it falls, with a low of \<open>1.09900\<close>.\<close>

definition bar1 :: Bar where
  "bar1 = \<lparr>opn = px 110000, high = px 110100, low = px 109900, close = px 110000,
     timestamp = 1600000060000000\<rparr>"

section \<open>Properties\<close>

subsection \<open>Unfolding the definitions\<close>

lemmas example_defs = strategy0_def env0_def bar0_def px_def stop_leg_def profit_leg_def

lemmas Price_defs = Price_def round_half_even_def gt_def lt_def as_double_def

lemmas handler_defs = on_bar_def check_signal_def check_trailing_stops_def trail_order_def
  orders_working_count_def is_sell_def is_buy_def

lemmas entry_defs = enter_long_def enter_short_def exchange_rate_lookup_def sizer_args_def
  order_factory_stop_def order_factory_bracket_def timedelta_def

text \<open>
  The calls of an entry routine, branch by branch: a failed lookup logs the error and
  stops, a rate of zero stops silently, a quantity of zero logs and stops, and otherwise
  the bracket order is submitted.
\<close>

lemma enter_long_trace:
  "enter_long s e bar sl_buffer spread_buffer =
     (let price_entry = Price (as_double (high bar) + entry_buffer s + spread_buffer) (precision s);
          price_stop_loss = Price (as_double (low bar) - sl_buffer) (precision s);
          price_take_profit =
            Price (as_double price_entry + (as_double price_entry - as_double price_stop_loss))
              (precision s)
      in case get_exchange_rate_for_account e (quote_currency s) ASK of
           Inl ex \<Rightarrow> [Log_error ex]
         | Inr r \<Rightarrow>
             if r = 0 then []
             else if position_sizer_calculate e (sizer_args s e price_entry price_stop_loss r) = 0
             then [Calculate (sizer_args s e price_entry price_stop_loss r),
                   Log_info ''Insufficient equity for BUY signal.'']
             else [Calculate (sizer_args s e price_entry price_stop_loss r),
                   Submit_bracket_order
                     (order_factory_bracket
                        (order_factory_stop (strategy_symbol s) BUY
                           (position_sizer_calculate e (sizer_args s e price_entry price_stop_loss r))
                           price_entry GTD (timestamp bar + timedelta 1))
                        price_stop_loss price_take_profit)])"
  by (simp add: enter_long_def exchange_rate_lookup_def Let_def split: sum.splits)

lemma enter_short_trace:
  "enter_short s e bar sl_buffer spread_buffer =
     (let price_entry = Price (as_double (low bar) - entry_buffer s) (precision s);
          price_stop_loss = Price (as_double (high bar) + sl_buffer + spread_buffer) (precision s);
          price_take_profit =
            Price (as_double price_entry - (as_double price_stop_loss - as_double price_entry))
              (precision s)
      in case get_exchange_rate_for_account e (quote_currency s) BID of
           Inl ex \<Rightarrow> [Log_error ex]
         | Inr r \<Rightarrow>
             if r = 0 then []
             else if position_sizer_calculate e (sizer_args s e price_entry price_stop_loss r) = 0
             then [Calculate (sizer_args s e price_entry price_stop_loss r),
                   Log_info ''Insufficient equity for SELL signal.'']
             else [Calculate (sizer_args s e price_entry price_stop_loss r),
                   Submit_bracket_order
                     (order_factory_bracket
                        (order_factory_stop (strategy_symbol s) SELL
                           (position_sizer_calculate e (sizer_args s e price_entry price_stop_loss r))
                           price_entry GTD (timestamp bar + timedelta 1))
                        price_stop_loss price_take_profit)])"
  by (simp add: enter_short_def exchange_rate_lookup_def Let_def split: sum.splits)

text \<open>What a submitted bracket order looks like, and where it can come from.\<close>

lemma enter_long_submit:
  assumes "Submit_bracket_order b \<in> set (enter_long s e bar sl_buffer spread_buffer)"
  shows "\<exists>r. get_exchange_rate_for_account e (quote_currency s) ASK = Inr r \<and> r \<noteq> 0 \<and>
     position_sizer_calculate e (sizer_args s e (entry_price (entry_order b)) (stop_loss b) r) \<noteq> 0 \<and>
     entry_quantity (entry_order b) =
       position_sizer_calculate e (sizer_args s e (entry_price (entry_order b)) (stop_loss b) r)"
    and "order_type (entry_order b) = STOP" and "order_side (entry_order b) = BUY"
    and "symbol (entry_order b) = strategy_symbol s"
    and "time_in_force (entry_order b) = GTD"
    and "expire_time (entry_order b) = timestamp bar + timedelta 1"
    and "entry_price (entry_order b) =
           Price (as_double (high bar) + entry_buffer s + spread_buffer) (precision s)"
    and "stop_loss b = Price (as_double (low bar) - sl_buffer) (precision s)"
    and "take_profit b =
           Price (as_double (entry_price (entry_order b))
                    + (as_double (entry_price (entry_order b)) - as_double (stop_loss b)))
             (precision s)"
  using assms
  by (auto simp: enter_long_trace Let_def order_factory_bracket_def order_factory_stop_def
      split: sum.splits if_splits)

lemma enter_short_submit:
  assumes "Submit_bracket_order b \<in> set (enter_short s e bar sl_buffer spread_buffer)"
  shows "\<exists>r. get_exchange_rate_for_account e (quote_currency s) BID = Inr r \<and> r \<noteq> 0 \<and>
     position_sizer_calculate e (sizer_args s e (entry_price (entry_order b)) (stop_loss b) r) \<noteq> 0 \<and>
     entry_quantity (entry_order b) =
       position_sizer_calculate e (sizer_args s e (entry_price (entry_order b)) (stop_loss b) r)"
    and "order_type (entry_order b) = STOP" and "order_side (entry_order b) = SELL"
    and "symbol (entry_order b) = strategy_symbol s"
    and "time_in_force (entry_order b) = GTD"
    and "expire_time (entry_order b) = timestamp bar + timedelta 1"
    and "entry_price (entry_order b) = Price (as_double (low bar) - entry_buffer s) (precision s)"
    and "stop_loss b = Price (as_double (high bar) + sl_buffer + spread_buffer) (precision s)"
    and "take_profit b =
           Price (as_double (entry_price (entry_order b))
                    - (as_double (stop_loss b) - as_double (entry_price (entry_order b))))
             (precision s)"
  using assms
  by (auto simp: enter_short_trace Let_def order_factory_bracket_def order_factory_stop_def
      split: sum.splits if_splits)

lemma check_signal_submit:
  assumes "Submit_bracket_order b \<in> set (check_signal s e bar sl_buffer spread_buffer)"
  shows "orders_working_count e = 0 \<and> is_flat e \<and>
     (if slow_ema_value e \<le> fast_ema_value e
      then Submit_bracket_order b \<in> set (enter_long s e bar sl_buffer spread_buffer)
      else Submit_bracket_order b \<in> set (enter_short s e bar sl_buffer spread_buffer))"
  using assms by (auto simp: check_signal_def split: if_splits)

text \<open>
  Every call of the sweep is the modification of a working stop-loss order, to the
  candidate price of its side, which is strictly better than the order's price.
\<close>

lemma sweep_events:
  "ev \<in> set (sweep s e bar sl_buffer spread_buffer orders) \<Longrightarrow>
     \<exists>order p. order \<in> set orders \<and> ev = Modify_order order (quantity order) p \<and>
       is_stop_loss e (cl_ord_id order) \<and>
       (if is_sell order
        then p = Price (as_double (low bar) - sl_buffer) (precision s) \<and> gt p (price order)
        else is_buy order \<and>
             p = Price (as_double (high bar) + sl_buffer + spread_buffer) (precision s) \<and>
             lt p (price order))"
proof (induction orders)
  case Nil
  then show ?case by simp
next
  case (Cons order orders)
  show ?case
  proof (cases "trail_order s e bar sl_buffer spread_buffer order")
    case None
    with Cons.prems show ?thesis by simp
  next
    case (Some evs)
    with Cons.prems consider "ev \<in> set evs" | "ev \<in> set (sweep s e bar sl_buffer spread_buffer orders)"
      by auto
    then show ?thesis
    proof cases
      case 1
      with Some show ?thesis
        by (auto simp: trail_order_def Let_def split: if_splits)
    next
      case 2
      from Cons.IH [OF 2] obtain order' p where mem: "order' \<in> set orders"
        and rest: "ev = Modify_order order' (quantity order') p \<and>
          is_stop_loss e (cl_ord_id order') \<and>
          (if is_sell order'
           then p = Price (as_double (low bar) - sl_buffer) (precision s) \<and> gt p (price order')
           else is_buy order' \<and>
                p = Price (as_double (high bar) + sl_buffer + spread_buffer) (precision s) \<and>
                lt p (price order'))"
        by blast
      from mem have "order' \<in> set (order # orders)" by simp
      with rest show ?thesis by blast
    qed
  qed
qed

lemma sweep_no_log: "ev \<in> set (sweep s e bar sl_buffer spread_buffer orders) \<Longrightarrow> \<not> is_log ev"
  by (drule sweep_events) auto

lemma sweep_no_submit: "Submit_bracket_order b \<notin> set (sweep s e bar sl_buffer spread_buffer orders)"
  using sweep_events [of "Submit_bracket_order b" s e bar sl_buffer spread_buffer orders] by auto

lemma sweep_no_calculate: "Calculate a \<notin> set (sweep s e bar sl_buffer spread_buffer orders)"
  using sweep_events [of "Calculate a" s e bar sl_buffer spread_buffer orders] by auto

text \<open>The handler on a bar that a warm-up gate rejects, and on a bar that passes.\<close>

lemma on_bar_rejected:
  assumes "\<not> indicators_initialized e \<or> \<not> has_quote_ticks e (strategy_symbol s)
             \<or> spread_analyzer_average e = 0"
  shows "on_bar s e bar_type bar =
     [Log_info ''Received Bar'',
      if \<not> indicators_initialized e then Log_info ''Waiting for indicators to warm up...''
      else if \<not> has_quote_ticks e (strategy_symbol s) then Log_info ''Waiting for ticks...''
      else Log_warning ''average_spread == 0.0 (not initialized).'']"
  using assms by (auto simp: on_bar_def Let_def)

lemma on_bar_accepted:
  assumes "indicators_initialized e" and "has_quote_ticks e (strategy_symbol s)"
    and "spread_analyzer_average e \<noteq> 0"
  shows "on_bar s e bar_type bar =
     Log_info ''Received Bar'' #
     (if 2 \<le> atr_value e / spread_analyzer_average e
      then check_signal s e bar (atr_value e * SL_atr_multiple s)
             (max (spread_analyzer_average e) (spread_analyzer_current e))
      else []) @
     check_trailing_stops s e bar (atr_value e * SL_atr_multiple s)
       (max (spread_analyzer_average e) (spread_analyzer_current e))"
  using assms by (simp add: on_bar_def Let_def)

lemma on_bar_submit:
  assumes "Submit_bracket_order b \<in> set (on_bar s e bar_type bar)"
  shows "indicators_initialized e \<and> has_quote_ticks e (strategy_symbol s) \<and>
     spread_analyzer_average e \<noteq> 0 \<and> 2 \<le> atr_value e / spread_analyzer_average e \<and>
     Submit_bracket_order b \<in> set (check_signal s e bar (atr_value e * SL_atr_multiple s)
             (max (spread_analyzer_average e) (spread_analyzer_current e)))"
proof -
  have acc: "indicators_initialized e \<and> has_quote_ticks e (strategy_symbol s) \<and>
     spread_analyzer_average e \<noteq> 0"
  proof (rule ccontr)
    assume "\<not> ?thesis"
    then have "\<not> indicators_initialized e \<or> \<not> has_quote_ticks e (strategy_symbol s)
             \<or> spread_analyzer_average e = 0" by blast
    from on_bar_rejected [OF this, of bar_type bar] assms show False
      by (auto split: if_splits)
  qed
  with assms show ?thesis
    by (auto simp: on_bar_accepted check_trailing_stops_def sweep_no_submit split: if_splits)
qed

text \<open>Log lines leave the working orders as they are.\<close>

lemma apply_modify_log: "is_log ev \<Longrightarrow> apply_modify ev w = w"
  by (cases ev) simp_all

lemma orders_after_logs: "list_all is_log evs \<Longrightarrow> orders_after evs ws = ws"
proof -
  assume logs: "list_all is_log evs"
  have "fold apply_modify evs w = w" for w
    using logs by (induction evs) (simp_all add: apply_modify_log)
  then show ?thesis by (simp add: orders_after_def)
qed

text \<open>
  A modification changes neither the identifier nor the side of a working order, and the
  price an order has after a list of calls is its old price or the price of one of the
  modifications addressed to it.
\<close>

lemma apply_modify_keeps:
  "cl_ord_id (apply_modify ev w) = cl_ord_id w" "side (apply_modify ev w) = side w"
  by (cases ev; simp)+

lemma fold_apply_modify_keeps:
  "cl_ord_id (fold apply_modify evs w) = cl_ord_id w \<and> side (fold apply_modify evs w) = side w"
  by (induction evs arbitrary: w) (simp_all add: apply_modify_keeps)

lemma fold_apply_modify_price:
  "price (fold apply_modify evs w) = price w \<or>
   (\<exists>order qty. Modify_order order qty (price (fold apply_modify evs w)) \<in> set evs \<and>
      cl_ord_id order = cl_ord_id w)"
proof (induction evs arbitrary: w)
  case Nil
  show ?case by simp
next
  case (Cons ev evs)
  let ?w = "apply_modify ev w"
  from Cons.IH [of ?w]
  consider "price (fold apply_modify evs ?w) = price ?w"
    | order qty where "Modify_order order qty (price (fold apply_modify evs ?w)) \<in> set evs"
        and "cl_ord_id order = cl_ord_id ?w"
    by blast
  then show ?case
  proof cases
    case 1
    show ?thesis
    proof (cases "price ?w = price w")
      case True
      with 1 show ?thesis by simp
    next
      case False
      then obtain order qty p where ev: "ev = Modify_order order qty p"
        and same: "cl_ord_id w = cl_ord_id order"
        by (cases ev) (auto split: if_splits)
      then have "price ?w = p" by simp
      with 1 ev same show ?thesis by auto
    qed
  next
    case 2
    then show ?thesis by (auto simp: apply_modify_keeps)
  qed
qed

lemma orders_after_keeps:
  "length (orders_after evs ws) = length ws"
  "map cl_ord_id (orders_after evs ws) = map cl_ord_id ws"
  "i < length ws \<Longrightarrow> orders_after evs ws ! i = fold apply_modify evs (ws ! i)"
  by (simp_all add: orders_after_def fold_apply_modify_keeps)

text \<open>The only modifications the handler makes are those of the sweep.\<close>

lemma check_signal_no_modify:
  "Modify_order order qty p \<notin> set (check_signal s e bar sl_buffer spread_buffer)"
  by (auto simp: check_signal_def enter_long_trace enter_short_trace Let_def split: sum.splits)

lemma on_bar_modify:
  assumes "Modify_order order qty p \<in> set (on_bar s e bar_type bar)"
  shows "Modify_order order qty p \<in>
           set (check_trailing_stops s e bar (atr_value e * SL_atr_multiple s)
                  (max (spread_analyzer_average e) (spread_analyzer_current e)))"
proof (cases "indicators_initialized e \<and> has_quote_ticks e (strategy_symbol s) \<and>
     spread_analyzer_average e \<noteq> 0")
  case True
  with assms show ?thesis
    by (auto simp: on_bar_accepted check_signal_no_modify split: if_splits)
next
  case False
  then have "\<not> indicators_initialized e \<or> \<not> has_quote_ticks e (strategy_symbol s)
             \<or> spread_analyzer_average e = 0" by blast
  from on_bar_rejected [OF this, of bar_type bar] assms show ?thesis
    by (auto split: if_splits)
qed

lemma trailing_modify:
  assumes "Modify_order order qty p \<in> set (check_trailing_stops s e bar sl_buffer spread_buffer)"
  shows "order \<in> set (orders_working e)" and "is_stop_loss e (cl_ord_id order)"
    and "qty = quantity order"
    and "is_sell order \<Longrightarrow> p = Price (as_double (low bar) - sl_buffer) (precision s)"
    and "is_sell order \<Longrightarrow> as_double (price order) < as_double p"
    and "\<not> is_sell order \<Longrightarrow> is_buy order"
    and "\<not> is_sell order \<Longrightarrow>
           p = Price (as_double (high bar) + sl_buffer + spread_buffer) (precision s)"
    and "\<not> is_sell order \<Longrightarrow> as_double p < as_double (price order)"
  using sweep_events [OF assms [unfolded check_trailing_stops_def]]
  by (auto simp: gt_def lt_def split: if_splits)

subsection \<open>Rounding to the price precision\<close>

text \<open>
  Rounding moves a value by at most half a unit, leaves a whole number alone, and lands
  strictly above (below) an integer only if the value itself is strictly above (below)
  it.
\<close>

lemma round_half_even_lower: "x - 1 / 2 \<le> real_of_int (round_half_even x)"
  unfolding round_half_even_def Let_def by (simp; linarith)

lemma round_half_even_upper: "real_of_int (round_half_even x) \<le> x + 1 / 2"
  unfolding round_half_even_def Let_def by (simp; linarith)

lemma round_half_even_of_int: "round_half_even (real_of_int k) = k"
  by (simp add: round_half_even_def)

lemma round_half_even_greater:
  assumes "m < round_half_even x" shows "real_of_int m < x"
proof -
  from assms have "real_of_int m + 1 \<le> real_of_int (round_half_even x)"
    by linarith
  with round_half_even_upper [of x] show ?thesis by linarith
qed

lemma round_half_even_less:
  assumes "round_half_even x < m" shows "x < real_of_int m"
proof -
  from assms have "real_of_int (round_half_even x) + 1 \<le> real_of_int m"
    by linarith
  with round_half_even_lower [of x] show ?thesis by linarith
qed

lemma prec_Price: "prec (Price v n) = n"
  by (simp add: Price_def)

lemma as_double_Price:
  "as_double (Price v n) = real_of_int (round_half_even (v * 10 ^ n)) / 10 ^ n"
  by (simp add: Price_def as_double_def)

lemma Price_close: "\<bar>as_double (Price v n) - v\<bar> \<le> (1 / 2) / 10 ^ n"
proof -
  let ?r = "real_of_int (round_half_even (v * 10 ^ n))"
  have "\<bar>?r - v * 10 ^ n\<bar> \<le> 1 / 2"
    using round_half_even_lower [of "v * 10 ^ n"] round_half_even_upper [of "v * 10 ^ n"]
    by linarith
  then have "\<bar>?r - v * 10 ^ n\<bar> / 10 ^ n \<le> (1 / 2) / 10 ^ n"
    by (rule divide_right_mono) simp
  moreover have "?r / 10 ^ n - v = (?r - v * 10 ^ n) / 10 ^ n"
    by (simp add: diff_divide_distrib)
  then have "\<bar>as_double (Price v n) - v\<bar> = \<bar>?r - v * 10 ^ n\<bar> / 10 ^ n"
    by (simp only: as_double_Price abs_divide) simp
  ultimately show ?thesis by simp
qed

lemma Price_of_grid:
  assumes "prec a = n" and "prec b = n"
  shows "as_double (Price (as_double a + (as_double a - as_double b)) n) =
           as_double a + (as_double a - as_double b)"
    and "as_double (Price (as_double a - (as_double b - as_double a)) n) =
           as_double a - (as_double b - as_double a)"
proof -
  have "(as_double a + (as_double a - as_double b)) * 10 ^ n =
          real_of_int (2 * mantissa a - mantissa b)"
    using assms by (simp add: as_double_def field_simps)
  then show "as_double (Price (as_double a + (as_double a - as_double b)) n) =
           as_double a + (as_double a - as_double b)"
    using assms by (simp add: as_double_Price round_half_even_of_int del: of_int_diff of_int_mult)
       (simp add: as_double_def field_simps)
  have "(as_double a - (as_double b - as_double a)) * 10 ^ n =
          real_of_int (2 * mantissa a - mantissa b)"
    using assms by (simp add: as_double_def field_simps)
  then show "as_double (Price (as_double a - (as_double b - as_double a)) n) =
           as_double a - (as_double b - as_double a)"
    using assms by (simp add: as_double_Price round_half_even_of_int del: of_int_diff of_int_mult)
       (simp add: as_double_def field_simps)
qed

lemma gt_Price_same_prec:
  assumes "gt (Price v n) q" and "prec q = n"
  shows "as_double q < v"
proof -
  from assms have "real_of_int (mantissa q) / 10 ^ n < real_of_int (round_half_even (v * 10 ^ n)) / 10 ^ n"
    by (simp add: gt_def as_double_Price) (simp add: as_double_def)
  then have "mantissa q < round_half_even (v * 10 ^ n)"
    by (simp add: divide_less_cancel)
  from round_half_even_greater [OF this] have "real_of_int (mantissa q) / 10 ^ n < v"
    by (simp add: pos_divide_less_eq)
  with assms(2) show ?thesis by (simp add: as_double_def)
qed

lemma lt_Price_same_prec:
  assumes "lt (Price v n) q" and "prec q = n"
  shows "v < as_double q"
proof -
  from assms have "real_of_int (round_half_even (v * 10 ^ n)) / 10 ^ n < real_of_int (mantissa q) / 10 ^ n"
    by (simp add: lt_def as_double_Price) (simp add: as_double_def)
  then have "round_half_even (v * 10 ^ n) < mantissa q"
    by (simp add: divide_less_cancel)
  from round_half_even_less [OF this] have "v < real_of_int (mantissa q) / 10 ^ n"
    by (simp add: pos_less_divide_eq)
  with assms(2) show ?thesis by (simp add: as_double_def)
qed

subsection \<open>One bar never loosens a stop, and neither does a sequence of bars\<close>

lemma step_monotone:
  assumes dist: "distinct (map cl_ord_id ws)" and mem: "w \<in> set ws"
  shows "(is_sell w \<longrightarrow>
           as_double (price w)
             \<le> as_double (price (fold apply_modify (on_bar s (e\<lparr>orders_working := ws\<rparr>) bar_type bar) w))) \<and>
         (is_buy w \<longrightarrow>
           as_double (price (fold apply_modify (on_bar s (e\<lparr>orders_working := ws\<rparr>) bar_type bar) w))
             \<le> as_double (price w))"
proof -
  let ?e = "e\<lparr>orders_working := ws\<rparr>"
  let ?evs = "on_bar s ?e bar_type bar"
  let ?w = "fold apply_modify ?evs w"
  from fold_apply_modify_price [of ?evs w]
  consider "price ?w = price w"
    | order qty where "Modify_order order qty (price ?w) \<in> set ?evs"
        and "cl_ord_id order = cl_ord_id w"
    by blast
  then show ?thesis
  proof cases
    case 1
    then show ?thesis by simp
  next
    case 2
    note m = on_bar_modify [OF 2(1)]
    from trailing_modify(1) [OF m] have "order \<in> set ws" by simp
    with dist mem 2(2) have same: "order = w"
      by (meson distinct_map inj_onD)
    show ?thesis
      using trailing_modify(5,8) [OF m] same by (auto simp: is_sell_def is_buy_def)
  qed
qed

lemma run_bars_monotone:
  assumes "distinct (map cl_ord_id ws)" and "i < length ws"
  shows "(is_sell (ws ! i) \<longrightarrow>
            sorted_wrt (\<le>) (map (\<lambda>ws'. as_double (price (ws' ! i))) (ws # run_bars s bars ws))) \<and>
         (is_buy (ws ! i) \<longrightarrow>
            sorted_wrt (\<ge>) (map (\<lambda>ws'. as_double (price (ws' ! i))) (ws # run_bars s bars ws)))"
  using assms
proof (induction bars arbitrary: ws)
  case Nil
  show ?case by simp
next
  case (Cons eb bars)
  obtain e bar where eb: "eb = (e, bar)" by (cases eb)
  let ?evs = "on_bar s (e\<lparr>orders_working := ws\<rparr>) ''bar_type'' bar"
  let ?ws = "orders_after ?evs ws"
  let ?f = "\<lambda>ws'. as_double (price (ws' ! i))"
  have run: "run_bars s (eb # bars) ws = ?ws # run_bars s bars ?ws"
    by (simp add: eb Let_def)
  have d: "distinct (map cl_ord_id ?ws)" and l: "i < length ?ws"
    using Cons.prems by (simp_all add: orders_after_keeps)
  have nth: "?ws ! i = fold apply_modify ?evs (ws ! i)"
    using Cons.prems by (simp add: orders_after_keeps)
  have mem: "ws ! i \<in> set ws" using Cons.prems by simp
  note step = step_monotone [OF Cons.prems(1) mem, of s e "''bar_type''" bar]
  have sd: "is_sell (?ws ! i) = is_sell (ws ! i)" "is_buy (?ws ! i) = is_buy (ws ! i)"
    by (simp_all add: nth is_sell_def is_buy_def fold_apply_modify_keeps)
  note IH = Cons.IH [OF d l]
  have tr1: "transp ((\<le>) :: real \<Rightarrow> real \<Rightarrow> bool)" and tr2: "transp ((\<ge>) :: real \<Rightarrow> real \<Rightarrow> bool)"
    by (auto intro: transpI)
  show ?case
  proof (intro conjI impI)
    assume sell: "is_sell (ws ! i)"
    with step nth have a: "?f ws \<le> ?f ?ws" by simp
    from IH sell sd have "sorted_wrt (\<le>) (map ?f (?ws # run_bars s bars ?ws))" by blast
    then have b: "sorted_wrt (\<le>) (?f ?ws # map ?f (run_bars s bars ?ws))"
      by (simp only: list.map)
    from a b have "sorted_wrt (\<le>) (?f ws # ?f ?ws # map ?f (run_bars s bars ?ws))"
      by (simp only: sorted_wrt2 [OF tr1])
    then show "sorted_wrt (\<le>) (map ?f (ws # run_bars s (eb # bars) ws))"
      by (simp only: run list.map)
  next
    assume buy: "is_buy (ws ! i)"
    with step nth have a: "?f ?ws \<le> ?f ws" by simp
    from IH buy sd have "sorted_wrt (\<ge>) (map ?f (?ws # run_bars s bars ?ws))" by blast
    then have b: "sorted_wrt (\<ge>) (?f ?ws # map ?f (run_bars s bars ?ws))"
      by (simp only: list.map)
    from a b have "sorted_wrt (\<ge>) (?f ws # ?f ?ws # map ?f (run_bars s bars ?ws))"
      by (simp only: sorted_wrt2 [OF tr2])
    then show "sorted_wrt (\<ge>) (map ?f (ws # run_bars s (eb # bars) ws))"
      by (simp only: run list.map)
  qed
qed

subsection \<open>The trailing stop sweep and the legs that are not stop-losses\<close>

text \<open>
  Claim C1: in the trailing stop sweep a leg that is not a stop-loss is skipped and the
  sweep goes on with the remaining legs, so that a stop-loss leg standing after such a
  leg is still trailed. The source leaves the loop at the first leg that is not a
  stop-loss (\<^verbatim>\<open>return\<close> where the claim needs \<^verbatim>\<open>continue\<close>). With the take-profit
  leg before the stop-loss leg nothing is modified on \<open>bar0\<close>; with the two legs in the
  other order, the same stop-loss leg on the same bar is moved from \<open>1.10000\<close> to
  \<open>1.10050\<close>.
\<close>

theorem C1_sweep_returns_at_first_non_stop_leg:
  "on_bar strategy0 (env0\<lparr>orders_working := [profit_leg, stop_leg], is_flat := False\<rparr>) ''bar_type'' bar0
     = [Log_info ''Received Bar''] \<and>
   on_bar strategy0 (env0\<lparr>orders_working := [stop_leg, profit_leg], is_flat := False\<rparr>) ''bar_type'' bar0
     = [Log_info ''Received Bar'', Modify_order stop_leg 50000 (px 110050)] \<and>
   is_stop_loss env0 (cl_ord_id stop_leg) \<and> \<not> is_stop_loss env0 (cl_ord_id profit_leg)"
  by (simp add: handler_defs Let_def example_defs Price_defs)

text \<open>
  Claim C3: the sweep replaces the price of a sell-side (long-protecting) stop only by
  the candidate \<open>bar.low - sl_buffer\<close>, rounded to the price precision, and only if
  that candidate is strictly greater than the current stop price; it replaces the price
  of a buy-side (short-protecting) stop only by the rounded candidate
  \<open>bar.high + sl_buffer + spread_buffer\<close>, and only if that is strictly less than the
  current stop price. When the stop's price has the precision of the instrument, the
  candidate before rounding is strictly beyond the current price as well. The quantity
  is unchanged. Hence, over any sequence of bars handed to the handler, the price of a
  sell-side working order never decreases and the price of a buy-side working order
  never increases.
\<close>

theorem C3_trailing_stop_only_tightens:
  "(Modify_order order qty p \<in> set (check_trailing_stops s e bar sl_buffer spread_buffer) \<longrightarrow>
      order \<in> set (orders_working e) \<and> is_stop_loss e (cl_ord_id order) \<and>
      qty = quantity order \<and>
      (is_sell order \<longrightarrow>
         p = Price (as_double (low bar) - sl_buffer) (precision s) \<and>
         as_double (price order) < as_double p \<and>
         (prec (price order) = precision s \<longrightarrow>
            as_double (price order) < as_double (low bar) - sl_buffer)) \<and>
      (\<not> is_sell order \<longrightarrow>
         is_buy order \<and>
         p = Price (as_double (high bar) + sl_buffer + spread_buffer) (precision s) \<and>
         as_double p < as_double (price order) \<and>
         (prec (price order) = precision s \<longrightarrow>
            as_double (high bar) + sl_buffer + spread_buffer < as_double (price order)))) \<and>
   (distinct (map cl_ord_id ws) \<and> i < length ws \<longrightarrow>
      (is_sell (ws ! i) \<longrightarrow>
         sorted_wrt (\<le>) (map (\<lambda>ws'. as_double (price (ws' ! i))) (ws # run_bars s bars ws))) \<and>
      (is_buy (ws ! i) \<longrightarrow>
         sorted_wrt (\<ge>) (map (\<lambda>ws'. as_double (price (ws' ! i))) (ws # run_bars s bars ws))))"
proof (intro conjI impI)
  assume "distinct (map cl_ord_id ws) \<and> i < length ws" and "is_sell (ws ! i)"
  then show "sorted_wrt (\<le>) (map (\<lambda>ws'. as_double (price (ws' ! i))) (ws # run_bars s bars ws))"
    using run_bars_monotone [of ws i s bars] by blast
next
  assume "distinct (map cl_ord_id ws) \<and> i < length ws" and "is_buy (ws ! i)"
  then show "sorted_wrt (\<ge>) (map (\<lambda>ws'. as_double (price (ws' ! i))) (ws # run_bars s bars ws))"
    using run_bars_monotone [of ws i s bars] by blast
next
  assume m: "Modify_order order qty p \<in> set (check_trailing_stops s e bar sl_buffer spread_buffer)"
  note t = trailing_modify [OF m]
  show "order \<in> set (orders_working e)" by (rule t(1))
  show "is_stop_loss e (cl_ord_id order)" by (rule t(2))
  show "qty = quantity order" by (rule t(3))
  {
    assume sell: "is_sell order"
    show "p = Price (as_double (low bar) - sl_buffer) (precision s)" by (rule t(4) [OF sell])
    show "as_double (price order) < as_double p" by (rule t(5) [OF sell])
    assume same: "prec (price order) = precision s"
    from t(4,5) [OF sell]
    have "gt (Price (as_double (low bar) - sl_buffer) (precision s)) (price order)"
      by (simp add: gt_def)
    from gt_Price_same_prec [OF this same]
    show "as_double (price order) < as_double (low bar) - sl_buffer" .
  }
  {
    assume buy: "\<not> is_sell order"
    show "is_buy order" by (rule t(6) [OF buy])
    show "p = Price (as_double (high bar) + sl_buffer + spread_buffer) (precision s)"
      by (rule t(7) [OF buy])
    show "as_double p < as_double (price order)" by (rule t(8) [OF buy])
    assume same: "prec (price order) = precision s"
    from t(7,8) [OF buy]
    have "lt (Price (as_double (high bar) + sl_buffer + spread_buffer) (precision s)) (price order)"
      by (simp add: lt_def)
    from lt_Price_same_prec [OF this same]
    show "as_double (high bar) + sl_buffer + spread_buffer < as_double (price order)" .
  }
qed

text \<open>
  The scenario of the spec: a stop at \<open>1.10000\<close>, a bar with low \<open>1.10100\<close> and stop
  buffer \<open>0.0005\<close> moves it to \<open>1.10050\<close>; the next bar, with low \<open>1.09900\<close>,
  leaves it there.
\<close>

theorem C3_trailing_stop_only_tightens_witness:
  "Modify_order stop_leg 50000 (px 110050)
     \<in> set (check_trailing_stops strategy0 (env0\<lparr>orders_working := [stop_leg]\<rparr>) bar0
              (5 / 10000) (2 / 100000)) \<and>
   is_sell stop_leg \<and> prec (price stop_leg) = precision strategy0 \<and>
   as_double (price stop_leg) < as_double (low bar0) - 5 / 10000 \<and>
   run_bars strategy0 [(env0\<lparr>is_flat := False\<rparr>, bar0), (env0\<lparr>is_flat := False\<rparr>, bar1)] [stop_leg] =
     [[stop_leg\<lparr>price := px 110050\<rparr>], [stop_leg\<lparr>price := px 110050\<rparr>]] \<and>
   sorted_wrt (\<le>)
     (map (\<lambda>ws'. as_double (price (ws' ! 0)))
        ([stop_leg] #
         run_bars strategy0 [(env0\<lparr>is_flat := False\<rparr>, bar0), (env0\<lparr>is_flat := False\<rparr>, bar1)]
           [stop_leg]))"
proof -
  let ?e = "env0\<lparr>orders_working := [stop_leg]\<rparr>"
  let ?bars = "[(env0\<lparr>is_flat := False\<rparr>, bar0), (env0\<lparr>is_flat := False\<rparr>, bar1)]"
  have m: "Modify_order stop_leg 50000 (px 110050)
     \<in> set (check_trailing_stops strategy0 ?e bar0 (5 / 10000) (2 / 100000))"
    by (simp add: handler_defs Let_def example_defs Price_defs)
  have sell: "is_sell stop_leg" and same: "prec (price stop_leg) = precision strategy0"
    by (simp_all add: is_sell_def example_defs)
  have d: "distinct (map cl_ord_id [stop_leg]) \<and> (0::nat) < length [stop_leg]"
    and sell0: "is_sell ([stop_leg] ! 0)"
    by (simp_all add: sell)
  note c1 = C3_trailing_stop_only_tightens
      [of stop_leg 50000 "px 110050" strategy0 ?e bar0 "5 / 10000" "2 / 100000" "[stop_leg]" 0 ?bars]
  have below: "as_double (price stop_leg) < as_double (low bar0) - 5 / 10000"
    using c1 m sell same by blast
  have sorted: "sorted_wrt (\<le>)
     (map (\<lambda>ws'. as_double (price (ws' ! 0))) ([stop_leg] # run_bars strategy0 ?bars [stop_leg]))"
    using c1 d sell0 by blast
  have step0: "on_bar strategy0 (env0\<lparr>is_flat := False, orders_working := [stop_leg]\<rparr>) ''bar_type'' bar0 =
      [Log_info ''Received Bar'', Modify_order stop_leg 50000 (px 110050)]"
    by (simp add: handler_defs Let_def example_defs Price_defs)
  have step1: "on_bar strategy0
      (env0\<lparr>is_flat := False, orders_working := [stop_leg\<lparr>price := px 110050\<rparr>]\<rparr>) ''bar_type'' bar1 =
      [Log_info ''Received Bar'']"
    by (simp add: handler_defs Let_def example_defs bar1_def Price_defs)
  have run: "run_bars strategy0 ?bars [stop_leg] =
     [[stop_leg\<lparr>price := px 110050\<rparr>], [stop_leg\<lparr>price := px 110050\<rparr>]]"
    by (simp add: Let_def step0 orders_after_def)
       (simp add: step1 [unfolded stop_leg_def, simplified] stop_leg_def)
  from m sell same below run sorted show ?thesis by blast
qed

subsection \<open>When a bracket order is submitted\<close>

text \<open>
  Claim C2, as amended: an entry routine submits a bracket order exactly when the
  exchange rate lookup succeeds with a rate other than zero and the position sizer
  returns a quantity other than zero for the computed entry and stop-loss prices. The
  routine makes no test of its own on the sign of the risk.
\<close>

theorem C2_submission_iff_rate_and_quantity:
  "((\<exists>b. Submit_bracket_order b \<in> set (enter_long s e bar sl_buffer spread_buffer)) =
      (\<exists>r. get_exchange_rate_for_account e (quote_currency s) ASK = Inr r \<and> r \<noteq> 0 \<and>
         position_sizer_calculate e
           (sizer_args s e
              (Price (as_double (high bar) + entry_buffer s + spread_buffer) (precision s))
              (Price (as_double (low bar) - sl_buffer) (precision s)) r) \<noteq> 0)) \<and>
   ((\<exists>b. Submit_bracket_order b \<in> set (enter_short s e bar sl_buffer spread_buffer)) =
      (\<exists>r. get_exchange_rate_for_account e (quote_currency s) BID = Inr r \<and> r \<noteq> 0 \<and>
         position_sizer_calculate e
           (sizer_args s e
              (Price (as_double (low bar) - entry_buffer s) (precision s))
              (Price (as_double (high bar) + sl_buffer + spread_buffer) (precision s)) r) \<noteq> 0))"
  by (auto simp: enter_long_trace enter_short_trace Let_def split: sum.splits)

text \<open>On \<open>bar0\<close> the long entry submits a bracket order.\<close>

theorem C2_submission_iff_rate_and_quantity_witness:
  "(\<exists>b. Submit_bracket_order b \<in> set (enter_long strategy0 env0 bar0 (5 / 10000) (2 / 100000)))"
proof -
  have "position_sizer_calculate env0
           (sizer_args strategy0 env0
              (Price (as_double (high bar0) + entry_buffer strategy0 + 2 / 100000) (precision strategy0))
              (Price (as_double (low bar0) - 5 / 10000) (precision strategy0)) 1) \<noteq> 0"
    by (simp add: entry_defs Price_defs FixedRiskSizer_calculate_def Let_def example_defs)
  moreover have "get_exchange_rate_for_account env0 (quote_currency strategy0) ASK = Inr 1"
    by (simp add: env0_def)
  ultimately show ?thesis
    using C2_submission_iff_rate_and_quantity [of strategy0 env0 bar0 "5 / 10000" "2 / 100000"]
    by (metis zero_neq_one)
qed

text \<open>
  Claim C2 as stated (a risk that is not strictly positive aborts the order) fails: with
  a stop multiple of \<open>-20\<close> the stop-loss \<open>1.10600\<close> lies above the entry
  \<open>1.10505\<close>, the risk is \<open>-0.00095\<close>, and the sizer of the spec, which takes the
  absolute distance, returns \<open>100000\<close>: the bracket order is submitted.
\<close>

theorem C2_counterexample:
  "on_bar (strategy0\<lparr>SL_atr_multiple := - 20\<rparr>) env0 ''bar_type'' bar0 =
     [Log_info ''Received Bar'',
      Calculate \<lparr>arg_equity = 100000, arg_risk_bp = 10, arg_entry = px 110505,
        arg_stop_loss = px 110600, arg_exchange_rate = 1, arg_commission_rate_bp = 15 / 100,
        arg_hard_limit = 20000000, arg_units = 1, arg_unit_batch_size = 10000\<rparr>,
      Submit_bracket_order
        \<lparr>entry_order = \<lparr>order_type = STOP, symbol = ''AUD/USD'', order_side = BUY,
           entry_quantity = 100000, entry_price = px 110505, time_in_force = GTD,
           expire_time = 1600000060000000\<rparr>,
         stop_loss = px 110600, take_profit = px 110410\<rparr>] \<and>
   as_double (px 110505) - as_double (px 110600) \<le> 0"
  apply (simp add: handler_defs Let_def example_defs enter_long_trace)
  apply (simp add: entry_defs Price_defs FixedRiskSizer_calculate_def Let_def)
  done

subsection \<open>The prices of the bracket\<close>

text \<open>
  Claim C4, as amended: the entry and the stop-loss of a submitted bracket are the
  values of the formulas of the claim rounded to the price precision of the instrument
  (for a BUY, \<open>bar.high + entry_buffer + spread_buffer\<close> and \<open>bar.low - sl_buffer\<close>;
  for a SELL, \<open>bar.low - entry_buffer\<close> and \<open>bar.high + sl_buffer + spread_buffer\<close>),
  each within half a price unit of the formula; the take-profit is computed from the
  rounded entry and stop-loss, and its distance from the entry is exactly the distance
  of the entry from the stop-loss.
\<close>

theorem C4_bracket_prices_rounded:
  "(Submit_bracket_order b \<in> set (enter_long s e bar sl_buffer spread_buffer) \<longrightarrow>
      entry_price (entry_order b) =
        Price (as_double (high bar) + entry_buffer s + spread_buffer) (precision s) \<and>
      stop_loss b = Price (as_double (low bar) - sl_buffer) (precision s) \<and>
      \<bar>as_double (entry_price (entry_order b))
          - (as_double (high bar) + entry_buffer s + spread_buffer)\<bar> \<le> (1 / 2) / 10 ^ precision s \<and>
      \<bar>as_double (stop_loss b) - (as_double (low bar) - sl_buffer)\<bar> \<le> (1 / 2) / 10 ^ precision s \<and>
      as_double (take_profit b) =
        as_double (entry_price (entry_order b))
          + (as_double (entry_price (entry_order b)) - as_double (stop_loss b)) \<and>
      as_double (take_profit b) - as_double (entry_price (entry_order b)) =
        as_double (entry_price (entry_order b)) - as_double (stop_loss b)) \<and>
   (Submit_bracket_order b \<in> set (enter_short s e bar sl_buffer spread_buffer) \<longrightarrow>
      entry_price (entry_order b) = Price (as_double (low bar) - entry_buffer s) (precision s) \<and>
      stop_loss b = Price (as_double (high bar) + sl_buffer + spread_buffer) (precision s) \<and>
      \<bar>as_double (entry_price (entry_order b))
          - (as_double (low bar) - entry_buffer s)\<bar> \<le> (1 / 2) / 10 ^ precision s \<and>
      \<bar>as_double (stop_loss b)
          - (as_double (high bar) + sl_buffer + spread_buffer)\<bar> \<le> (1 / 2) / 10 ^ precision s \<and>
      as_double (take_profit b) =
        as_double (entry_price (entry_order b))
          - (as_double (stop_loss b) - as_double (entry_price (entry_order b))) \<and>
      as_double (entry_price (entry_order b)) - as_double (take_profit b) =
        as_double (stop_loss b) - as_double (entry_price (entry_order b)))"
proof (intro conjI impI)
  assume sub: "Submit_bracket_order b \<in> set (enter_long s e bar sl_buffer spread_buffer)"
  note ent = enter_long_submit(7) [OF sub] and stp = enter_long_submit(8) [OF sub]
    and tp = enter_long_submit(9) [OF sub]
  show "entry_price (entry_order b) =
        Price (as_double (high bar) + entry_buffer s + spread_buffer) (precision s)"
    by (rule ent)
  show "stop_loss b = Price (as_double (low bar) - sl_buffer) (precision s)"
    by (rule stp)
  show "\<bar>as_double (entry_price (entry_order b))
          - (as_double (high bar) + entry_buffer s + spread_buffer)\<bar> \<le> (1 / 2) / 10 ^ precision s"
    unfolding ent by (rule Price_close)
  show "\<bar>as_double (stop_loss b) - (as_double (low bar) - sl_buffer)\<bar> \<le> (1 / 2) / 10 ^ precision s"
    unfolding stp by (rule Price_close)
  have pe: "prec (entry_price (entry_order b)) = precision s"
    by (simp add: ent prec_Price)
  have ps: "prec (stop_loss b) = precision s"
    by (simp add: stp prec_Price)
  show eq: "as_double (take_profit b) =
        as_double (entry_price (entry_order b))
          + (as_double (entry_price (entry_order b)) - as_double (stop_loss b))"
    using Price_of_grid(1) [OF pe ps] tp by simp
  show "as_double (take_profit b) - as_double (entry_price (entry_order b)) =
        as_double (entry_price (entry_order b)) - as_double (stop_loss b)"
    using eq by simp
next
  assume sub: "Submit_bracket_order b \<in> set (enter_short s e bar sl_buffer spread_buffer)"
  note ent = enter_short_submit(7) [OF sub] and stp = enter_short_submit(8) [OF sub]
    and tp = enter_short_submit(9) [OF sub]
  show "entry_price (entry_order b) = Price (as_double (low bar) - entry_buffer s) (precision s)"
    by (rule ent)
  show "stop_loss b = Price (as_double (high bar) + sl_buffer + spread_buffer) (precision s)"
    by (rule stp)
  show "\<bar>as_double (entry_price (entry_order b))
          - (as_double (low bar) - entry_buffer s)\<bar> \<le> (1 / 2) / 10 ^ precision s"
    unfolding ent by (rule Price_close)
  show "\<bar>as_double (stop_loss b)
          - (as_double (high bar) + sl_buffer + spread_buffer)\<bar> \<le> (1 / 2) / 10 ^ precision s"
    unfolding stp by (rule Price_close)
  have pe: "prec (entry_price (entry_order b)) = precision s"
    by (simp add: ent prec_Price)
  have ps: "prec (stop_loss b) = precision s"
    by (simp add: stp prec_Price)
  show eq: "as_double (take_profit b) =
        as_double (entry_price (entry_order b))
          - (as_double (stop_loss b) - as_double (entry_price (entry_order b)))"
    using Price_of_grid(2) [OF pe ps] tp by simp
  show "as_double (entry_price (entry_order b)) - as_double (take_profit b) =
        as_double (stop_loss b) - as_double (entry_price (entry_order b))"
    using eq by simp
qed

text \<open>A spread buffer of \<open>0.000023\<close>, which is not a whole number of price units.\<close>

theorem C4_bracket_prices_rounded_witness:
  "Submit_bracket_order
        \<lparr>entry_order = \<lparr>order_type = STOP, symbol = ''AUD/USD'', order_side = BUY,
           entry_quantity = 20000, entry_price = px 110505, time_in_force = GTD,
           expire_time = 1600000060000000\<rparr>,
         stop_loss = px 110050, take_profit = px 110960\<rparr>
     \<in> set (enter_long strategy0 env0 bar0 (5 / 10000) (23 / 1000000)) \<and>
   as_double (px 110960) - as_double (px 110505) = as_double (px 110505) - as_double (px 110050) \<and>
   \<bar>as_double (px 110505) - (as_double (high bar0) + entry_buffer strategy0 + 23 / 1000000)\<bar>
     \<le> (1 / 2) / 10 ^ precision strategy0"
proof -
  let ?b = "\<lparr>entry_order = \<lparr>order_type = STOP, symbol = ''AUD/USD'', order_side = BUY,
           entry_quantity = 20000, entry_price = px 110505, time_in_force = GTD,
           expire_time = 1600000060000000\<rparr>,
         stop_loss = px 110050, take_profit = px 110960\<rparr>"
  have "enter_long strategy0 env0 bar0 (5 / 10000) (23 / 1000000) =
     [Calculate \<lparr>arg_equity = 100000, arg_risk_bp = 10, arg_entry = px 110505,
        arg_stop_loss = px 110050, arg_exchange_rate = 1, arg_commission_rate_bp = 15 / 100,
        arg_hard_limit = 20000000, arg_units = 1, arg_unit_batch_size = 10000\<rparr>,
      Submit_bracket_order ?b]"
    apply (simp add: enter_long_trace Let_def example_defs)
    apply (simp add: entry_defs Price_defs FixedRiskSizer_calculate_def Let_def)
    done
  then have m: "Submit_bracket_order ?b \<in> set (enter_long strategy0 env0 bar0 (5 / 10000) (23 / 1000000))"
    by simp
  note c = C4_bracket_prices_rounded [of ?b strategy0 env0 bar0 "5 / 10000" "23 / 1000000"]
  have k: "as_double (take_profit ?b) - as_double (entry_price (entry_order ?b)) =
        as_double (entry_price (entry_order ?b)) - as_double (stop_loss ?b)"
    using c m by blast
  have l: "\<bar>as_double (entry_price (entry_order ?b))
          - (as_double (high bar0) + entry_buffer strategy0 + 23 / 1000000)\<bar>
        \<le> (1 / 2) / 10 ^ precision strategy0"
    using c m by blast
  from k l m show ?thesis by simp
qed

text \<open>
  Claim C4 as stated (the entry is \<open>bar.high + entryBuffer + spreadBuffer\<close>) fails with
  an average spread of \<open>0.000023\<close>: the formula gives \<open>1.105053\<close>, the entry of the
  submitted bracket is \<open>1.10505\<close>.
\<close>

theorem C4_counterexample:
  "on_bar strategy0 (env0\<lparr>spread_analyzer_average := 23 / 1000000\<rparr>) ''bar_type'' bar0 =
     [Log_info ''Received Bar'',
      Calculate \<lparr>arg_equity = 100000, arg_risk_bp = 10, arg_entry = px 110505,
        arg_stop_loss = px 110050, arg_exchange_rate = 1, arg_commission_rate_bp = 15 / 100,
        arg_hard_limit = 20000000, arg_units = 1, arg_unit_batch_size = 10000\<rparr>,
      Submit_bracket_order
        \<lparr>entry_order = \<lparr>order_type = STOP, symbol = ''AUD/USD'', order_side = BUY,
           entry_quantity = 20000, entry_price = px 110505, time_in_force = GTD,
           expire_time = 1600000060000000\<rparr>,
         stop_loss = px 110050, take_profit = px 110960\<rparr>] \<and>
   max (spread_analyzer_average (env0\<lparr>spread_analyzer_average := 23 / 1000000\<rparr>))
       (spread_analyzer_current (env0\<lparr>spread_analyzer_average := 23 / 1000000\<rparr>)) = 23 / 1000000 \<and>
   as_double (high bar0) + entry_buffer strategy0 + 23 / 1000000 = 1105053 / 1000000 \<and>
   as_double (px 110505) = 1105050 / 1000000 \<and>
   as_double (px 110505) \<noteq> as_double (high bar0) + entry_buffer strategy0 + 23 / 1000000"
  apply (simp add: handler_defs Let_def example_defs enter_long_trace)
  apply (simp add: entry_defs Price_defs FixedRiskSizer_calculate_def Let_def)
  done

subsection \<open>The signal\<close>

text \<open>
  Claim C5: the signal is evaluated only when there is no working order and the position
  is flat; then a fast average at or above the slow one enters long (a tie is a BUY) and
  a fast average below the slow one enters short, and every bracket order submitted has
  that side.
\<close>

theorem C5_signal_decision:
  "(\<not> (orders_working_count e = 0 \<and> is_flat e) \<longrightarrow>
      check_signal s e bar sl_buffer spread_buffer = []) \<and>
   (orders_working_count e = 0 \<and> is_flat e \<and> slow_ema_value e \<le> fast_ema_value e \<longrightarrow>
      check_signal s e bar sl_buffer spread_buffer = enter_long s e bar sl_buffer spread_buffer \<and>
      (\<forall>b. Submit_bracket_order b \<in> set (check_signal s e bar sl_buffer spread_buffer) \<longrightarrow>
         order_side (entry_order b) = BUY)) \<and>
   (orders_working_count e = 0 \<and> is_flat e \<and> fast_ema_value e < slow_ema_value e \<longrightarrow>
      check_signal s e bar sl_buffer spread_buffer = enter_short s e bar sl_buffer spread_buffer \<and>
      (\<forall>b. Submit_bracket_order b \<in> set (check_signal s e bar sl_buffer spread_buffer) \<longrightarrow>
         order_side (entry_order b) = SELL))"
proof (intro conjI impI allI)
  fix b
  assume "orders_working_count e = 0 \<and> is_flat e \<and> slow_ema_value e \<le> fast_ema_value e"
    and "Submit_bracket_order b \<in> set (check_signal s e bar sl_buffer spread_buffer)"
  then have "Submit_bracket_order b \<in> set (enter_long s e bar sl_buffer spread_buffer)"
    by (simp add: check_signal_def)
  then show "order_side (entry_order b) = BUY"
    by (rule enter_long_submit)
next
  fix b
  assume "orders_working_count e = 0 \<and> is_flat e \<and> fast_ema_value e < slow_ema_value e"
    and "Submit_bracket_order b \<in> set (check_signal s e bar sl_buffer spread_buffer)"
  then have "Submit_bracket_order b \<in> set (enter_short s e bar sl_buffer spread_buffer)"
    by (simp add: check_signal_def)
  then show "order_side (entry_order b) = SELL"
    by (rule enter_short_submit)
qed (auto simp: check_signal_def)

text \<open>A tie of the two averages on \<open>bar0\<close>: the BUY bracket is submitted.\<close>

theorem C5_signal_decision_witness:
  "orders_working_count env0 = 0 \<and> is_flat env0 \<and> fast_ema_value env0 = slow_ema_value env0 \<and>
   check_signal strategy0 env0 bar0 (5 / 10000) (2 / 100000) =
     enter_long strategy0 env0 bar0 (5 / 10000) (2 / 100000) \<and>
   check_signal strategy0 env0 bar0 (5 / 10000) (2 / 100000) =
     [Calculate \<lparr>arg_equity = 100000, arg_risk_bp = 10, arg_entry = px 110505,
        arg_stop_loss = px 110050, arg_exchange_rate = 1, arg_commission_rate_bp = 15 / 100,
        arg_hard_limit = 20000000, arg_units = 1, arg_unit_batch_size = 10000\<rparr>,
      Submit_bracket_order
        \<lparr>entry_order = \<lparr>order_type = STOP, symbol = ''AUD/USD'', order_side = BUY,
           entry_quantity = 20000, entry_price = px 110505, time_in_force = GTD,
           expire_time = 1600000060000000\<rparr>,
         stop_loss = px 110050, take_profit = px 110960\<rparr>]"
proof -
  have flat: "orders_working_count env0 = 0 \<and> is_flat env0 \<and> slow_ema_value env0 \<le> fast_ema_value env0"
    by (simp add: orders_working_count_def env0_def)
  have eq: "check_signal strategy0 env0 bar0 (5 / 10000) (2 / 100000) =
     enter_long strategy0 env0 bar0 (5 / 10000) (2 / 100000)"
    using C5_signal_decision [of env0 strategy0 bar0 "5 / 10000" "2 / 100000"] flat by blast
  have "enter_long strategy0 env0 bar0 (5 / 10000) (2 / 100000) =
     [Calculate \<lparr>arg_equity = 100000, arg_risk_bp = 10, arg_entry = px 110505,
        arg_stop_loss = px 110050, arg_exchange_rate = 1, arg_commission_rate_bp = 15 / 100,
        arg_hard_limit = 20000000, arg_units = 1, arg_unit_batch_size = 10000\<rparr>,
      Submit_bracket_order
        \<lparr>entry_order = \<lparr>order_type = STOP, symbol = ''AUD/USD'', order_side = BUY,
           entry_quantity = 20000, entry_price = px 110505, time_in_force = GTD,
           expire_time = 1600000060000000\<rparr>,
         stop_loss = px 110050, take_profit = px 110960\<rparr>]"
    apply (simp add: enter_long_trace Let_def example_defs)
    apply (simp add: entry_defs Price_defs FixedRiskSizer_calculate_def Let_def)
    done
  with eq flat show ?thesis by (simp add: env0_def)
qed

subsection \<open>The liquidity gate\<close>

text \<open>
  Claim C6: on a bar that passes the warm-up gates, the signal is checked if and only if
  the average true range divided by the average spread is at least 2 (exactly 2 is
  accepted); below 2 the handler does nothing but the trailing stop sweep, which runs
  in both cases.
\<close>

theorem C6_liquidity_gate:
  assumes "indicators_initialized e" and "has_quote_ticks e (strategy_symbol s)"
    and "spread_analyzer_average e \<noteq> 0"
  shows "(2 \<le> atr_value e / spread_analyzer_average e \<longrightarrow>
           on_bar s e bar_type bar =
             Log_info ''Received Bar'' #
             check_signal s e bar (atr_value e * SL_atr_multiple s)
               (max (spread_analyzer_average e) (spread_analyzer_current e)) @
             check_trailing_stops s e bar (atr_value e * SL_atr_multiple s)
               (max (spread_analyzer_average e) (spread_analyzer_current e))) \<and>
         (atr_value e / spread_analyzer_average e < 2 \<longrightarrow>
           on_bar s e bar_type bar =
             Log_info ''Received Bar'' #
             check_trailing_stops s e bar (atr_value e * SL_atr_multiple s)
               (max (spread_analyzer_average e) (spread_analyzer_current e)))"
  using assms by (simp add: on_bar_accepted)

text \<open>
  A ratio of exactly 2 submits a bracket order; a ratio of 1.5 submits nothing and still
  trails the working stop.
\<close>

theorem C6_liquidity_gate_witness:
  "atr_value (env0\<lparr>atr_value := 4 / 100000\<rparr>) / spread_analyzer_average (env0\<lparr>atr_value := 4 / 100000\<rparr>) = 2 \<and>
   on_bar strategy0 (env0\<lparr>atr_value := 4 / 100000\<rparr>) ''bar_type'' bar0 =
     [Log_info ''Received Bar'',
      Calculate \<lparr>arg_equity = 100000, arg_risk_bp = 10, arg_entry = px 110505,
        arg_stop_loss = px 110092, arg_exchange_rate = 1, arg_commission_rate_bp = 15 / 100,
        arg_hard_limit = 20000000, arg_units = 1, arg_unit_batch_size = 10000\<rparr>,
      Submit_bracket_order
        \<lparr>entry_order = \<lparr>order_type = STOP, symbol = ''AUD/USD'', order_side = BUY,
           entry_quantity = 20000, entry_price = px 110505, time_in_force = GTD,
           expire_time = 1600000060000000\<rparr>,
         stop_loss = px 110092, take_profit = px 110918\<rparr>] \<and>
   atr_value (env0\<lparr>atr_value := 3 / 100000, orders_working := [stop_leg]\<rparr>)
     / spread_analyzer_average (env0\<lparr>atr_value := 3 / 100000, orders_working := [stop_leg]\<rparr>) < 2 \<and>
   on_bar strategy0 (env0\<lparr>atr_value := 3 / 100000, orders_working := [stop_leg]\<rparr>) ''bar_type'' bar0 =
     [Log_info ''Received Bar'', Modify_order stop_leg 50000 (px 110094)]"
proof -
  let ?e = "env0\<lparr>atr_value := 4 / 100000\<rparr>"
  let ?f = "env0\<lparr>atr_value := 3 / 100000, orders_working := [stop_leg]\<rparr>"
  have g: "indicators_initialized ?e" "has_quote_ticks ?e (strategy_symbol strategy0)"
    "spread_analyzer_average ?e \<noteq> 0"
    by (simp_all add: env0_def strategy0_def)
  have r: "atr_value ?e / spread_analyzer_average ?e = 2" by (simp add: env0_def)
  have h: "indicators_initialized ?f" "has_quote_ticks ?f (strategy_symbol strategy0)"
    "spread_analyzer_average ?f \<noteq> 0"
    by (simp_all add: env0_def strategy0_def)
  have q: "atr_value ?f / spread_analyzer_average ?f < 2" by (simp add: env0_def)
  have 1: "on_bar strategy0 ?e ''bar_type'' bar0 =
             Log_info ''Received Bar'' #
             check_signal strategy0 ?e bar0 (atr_value ?e * SL_atr_multiple strategy0)
               (max (spread_analyzer_average ?e) (spread_analyzer_current ?e)) @
             check_trailing_stops strategy0 ?e bar0 (atr_value ?e * SL_atr_multiple strategy0)
               (max (spread_analyzer_average ?e) (spread_analyzer_current ?e))"
    using C6_liquidity_gate [OF g, of "''bar_type''" bar0] r by simp
  have 2: "on_bar strategy0 ?f ''bar_type'' bar0 =
             Log_info ''Received Bar'' #
             check_trailing_stops strategy0 ?f bar0 (atr_value ?f * SL_atr_multiple strategy0)
               (max (spread_analyzer_average ?f) (spread_analyzer_current ?f))"
    using C6_liquidity_gate [OF h, of "''bar_type''" bar0] q by blast
  have 3: "check_signal strategy0 ?e bar0 (atr_value ?e * SL_atr_multiple strategy0)
               (max (spread_analyzer_average ?e) (spread_analyzer_current ?e)) @
             check_trailing_stops strategy0 ?e bar0 (atr_value ?e * SL_atr_multiple strategy0)
               (max (spread_analyzer_average ?e) (spread_analyzer_current ?e)) =
     [Calculate \<lparr>arg_equity = 100000, arg_risk_bp = 10, arg_entry = px 110505,
        arg_stop_loss = px 110092, arg_exchange_rate = 1, arg_commission_rate_bp = 15 / 100,
        arg_hard_limit = 20000000, arg_units = 1, arg_unit_batch_size = 10000\<rparr>,
      Submit_bracket_order
        \<lparr>entry_order = \<lparr>order_type = STOP, symbol = ''AUD/USD'', order_side = BUY,
           entry_quantity = 20000, entry_price = px 110505, time_in_force = GTD,
           expire_time = 1600000060000000\<rparr>,
         stop_loss = px 110092, take_profit = px 110918\<rparr>]"
    apply (simp add: handler_defs Let_def example_defs enter_long_trace)
    apply (simp add: entry_defs Price_defs FixedRiskSizer_calculate_def Let_def)
    done
  have 4: "check_trailing_stops strategy0 ?f bar0 (atr_value ?f * SL_atr_multiple strategy0)
               (max (spread_analyzer_average ?f) (spread_analyzer_current ?f)) =
     [Modify_order stop_leg 50000 (px 110094)]"
    by (simp add: handler_defs Let_def example_defs Price_defs)
  show ?thesis using r q 1 2 3 4 by simp
qed

subsection \<open>The exchange rate\<close>

text \<open>
  Claim C7, as amended: when the exchange rate lookup fails, or returns exactly zero, the
  entry routine calls neither the sizer nor the execution side (a failed lookup is
  logged, nothing else happens); for every other rate, a negative one included, the
  first call is the sizer, with that rate.
\<close>

theorem C7_zero_or_missing_rate_skips_sizer:
  "(get_exchange_rate_for_account e (quote_currency s) ASK = Inl ex \<longrightarrow>
      enter_long s e bar sl_buffer spread_buffer = [Log_error ex]) \<and>
   (get_exchange_rate_for_account e (quote_currency s) ASK = Inr 0 \<longrightarrow>
      enter_long s e bar sl_buffer spread_buffer = []) \<and>
   (get_exchange_rate_for_account e (quote_currency s) BID = Inl ex \<longrightarrow>
      enter_short s e bar sl_buffer spread_buffer = [Log_error ex]) \<and>
   (get_exchange_rate_for_account e (quote_currency s) BID = Inr 0 \<longrightarrow>
      enter_short s e bar sl_buffer spread_buffer = []) \<and>
   (get_exchange_rate_for_account e (quote_currency s) ASK = Inr r \<and> r \<noteq> 0 \<longrightarrow>
      hd (enter_long s e bar sl_buffer spread_buffer) =
        Calculate (sizer_args s e
              (Price (as_double (high bar) + entry_buffer s + spread_buffer) (precision s))
              (Price (as_double (low bar) - sl_buffer) (precision s)) r)) \<and>
   (get_exchange_rate_for_account e (quote_currency s) BID = Inr r \<and> r \<noteq> 0 \<longrightarrow>
      hd (enter_short s e bar sl_buffer spread_buffer) =
        Calculate (sizer_args s e
              (Price (as_double (low bar) - entry_buffer s) (precision s))
              (Price (as_double (high bar) + sl_buffer + spread_buffer) (precision s)) r))"
  by (simp add: enter_long_trace enter_short_trace Let_def)

text \<open>A lookup that fails, and a rate of zero.\<close>

theorem C7_zero_or_missing_rate_skips_sizer_witness:
  "get_exchange_rate_for_account (env0\<lparr>get_exchange_rate_for_account := (\<lambda>ccy pt. Inl ''no rate'')\<rparr>)
      (quote_currency strategy0) ASK = Inl ''no rate'' \<and>
   enter_long strategy0 (env0\<lparr>get_exchange_rate_for_account := (\<lambda>ccy pt. Inl ''no rate'')\<rparr>) bar0
      (5 / 10000) (2 / 100000) = [Log_error ''no rate''] \<and>
   get_exchange_rate_for_account (env0\<lparr>get_exchange_rate_for_account := (\<lambda>ccy pt. Inr 0)\<rparr>)
      (quote_currency strategy0) BID = Inr 0 \<and>
   enter_short strategy0 (env0\<lparr>get_exchange_rate_for_account := (\<lambda>ccy pt. Inr 0)\<rparr>) bar0
      (5 / 10000) (2 / 100000) = []"
  using C7_zero_or_missing_rate_skips_sizer
      [of "env0\<lparr>get_exchange_rate_for_account := (\<lambda>ccy pt. Inl ''no rate'')\<rparr>" strategy0
          "''no rate''" bar0 "5 / 10000" "2 / 100000" 1]
    C7_zero_or_missing_rate_skips_sizer
      [of "env0\<lparr>get_exchange_rate_for_account := (\<lambda>ccy pt. Inr 0)\<rparr>" strategy0
          "''no rate''" bar0 "5 / 10000" "2 / 100000" 1]
  by simp

text \<open>
  Claim C7 as stated (no call of the sizer for a rate less than or equal to zero) fails
  at the rate \<open>-1\<close>: the sizer is called with it.
\<close>

theorem C7_counterexample:
  "get_exchange_rate_for_account (env0\<lparr>get_exchange_rate_for_account := (\<lambda>ccy pt. Inr (- 1))\<rparr>)
      (quote_currency strategy0) ASK = Inr (- 1) \<and> - 1 \<le> (0::real) \<and>
   enter_long strategy0 (env0\<lparr>get_exchange_rate_for_account := (\<lambda>ccy pt. Inr (- 1))\<rparr>) bar0
      (5 / 10000) (2 / 100000) =
     [Calculate \<lparr>arg_equity = 100000, arg_risk_bp = 10, arg_entry = px 110505,
        arg_stop_loss = px 110050, arg_exchange_rate = - 1, arg_commission_rate_bp = 15 / 100,
        arg_hard_limit = 20000000, arg_units = 1, arg_unit_batch_size = 10000\<rparr>,
      Log_info ''Insufficient equity for BUY signal.'']"
  apply (simp add: enter_long_trace Let_def example_defs)
  apply (simp add: entry_defs Price_defs FixedRiskSizer_calculate_def Let_def)
  done

subsection \<open>The warm-up gates\<close>

text \<open>
  Claim C8, as amended: when the indicators are not initialised, or no quote tick has
  been seen, or the average spread is equal to zero, the handler only writes log lines:
  it calls neither the sizer nor the execution side.
\<close>

theorem C8_rejected_bar_only_logs:
  assumes "\<not> indicators_initialized e \<or> \<not> has_quote_ticks e (strategy_symbol s)
             \<or> spread_analyzer_average e = 0"
  shows "list_all is_log (on_bar s e bar_type bar) \<and>
         (\<forall>b. Submit_bracket_order b \<notin> set (on_bar s e bar_type bar)) \<and>
         (\<forall>a. Calculate a \<notin> set (on_bar s e bar_type bar))"
  by (simp add: on_bar_rejected [OF assms])

text \<open>Indicators that are not ready, and an average spread of zero.\<close>

theorem C8_rejected_bar_only_logs_witness:
  "\<not> indicators_initialized (env0\<lparr>indicators_initialized := False\<rparr>) \<and>
   list_all is_log (on_bar strategy0 (env0\<lparr>indicators_initialized := False\<rparr>) ''bar_type'' bar0) \<and>
   spread_analyzer_average (env0\<lparr>spread_analyzer_average := 0\<rparr>) = 0 \<and>
   list_all is_log (on_bar strategy0 (env0\<lparr>spread_analyzer_average := 0\<rparr>) ''bar_type'' bar0)"
  using C8_rejected_bar_only_logs [of "env0\<lparr>indicators_initialized := False\<rparr>" strategy0 "''bar_type''" bar0]
    C8_rejected_bar_only_logs [of "env0\<lparr>spread_analyzer_average := 0\<rparr>" strategy0 "''bar_type''" bar0]
  by simp

text \<open>
  Claim C8 as stated (an average spread that is not strictly positive discards the bar)
  fails at the average spread \<open>-0.00002\<close>: the bar passes the gate, which tests for
  zero only, and the working stop is modified.
\<close>

theorem C8_counterexample:
  "indicators_initialized (env0\<lparr>spread_analyzer_average := - 2 / 100000, orders_working := [stop_leg], is_flat := False\<rparr>) \<and>
   has_quote_ticks (env0\<lparr>spread_analyzer_average := - 2 / 100000, orders_working := [stop_leg], is_flat := False\<rparr>)
     (strategy_symbol strategy0) \<and>
   \<not> 0 < spread_analyzer_average (env0\<lparr>spread_analyzer_average := - 2 / 100000, orders_working := [stop_leg], is_flat := False\<rparr>) \<and>
   on_bar strategy0 (env0\<lparr>spread_analyzer_average := - 2 / 100000, orders_working := [stop_leg], is_flat := False\<rparr>)
     ''bar_type'' bar0 =
     [Log_info ''Received Bar'', Modify_order stop_leg 50000 (px 110050)]"
  by (simp add: handler_defs Let_def example_defs Price_defs)

text \<open>
  Claim C10: on a bar that a warm-up gate rejects, the trailing stop sweep does not run:
  no working order is modified, and the working orders are after the bar what they were
  before it.
\<close>

theorem C10_rejected_bar_no_trailing:
  assumes "\<not> indicators_initialized e \<or> \<not> has_quote_ticks e (strategy_symbol s)
             \<or> spread_analyzer_average e = 0"
  shows "(\<forall>order qty p. Modify_order order qty p \<notin> set (on_bar s e bar_type bar)) \<and>
         orders_after (on_bar s e bar_type bar) (orders_working e) = orders_working e"
proof -
  have logs: "list_all is_log (on_bar s e bar_type bar)"
    by (simp add: on_bar_rejected [OF assms])
  then have "Modify_order order qty p \<notin> set (on_bar s e bar_type bar)" for order qty p
    by (auto simp: list_all_iff)
  with orders_after_logs [OF logs] show ?thesis by simp
qed

text \<open>
  With an average spread of zero the working stop stays at \<open>1.10000\<close>, although the
  sweep alone would move it to \<open>1.10050\<close> on this bar.
\<close>

theorem C10_rejected_bar_no_trailing_witness:
  "spread_analyzer_average (env0\<lparr>spread_analyzer_average := 0, orders_working := [stop_leg]\<rparr>) = 0 \<and>
   check_trailing_stops strategy0 (env0\<lparr>spread_analyzer_average := 0, orders_working := [stop_leg]\<rparr>)
     bar0 (5 / 10000) (2 / 100000) = [Modify_order stop_leg 50000 (px 110050)] \<and>
   orders_after
     (on_bar strategy0 (env0\<lparr>spread_analyzer_average := 0, orders_working := [stop_leg]\<rparr>) ''bar_type'' bar0)
     [stop_leg] = [stop_leg]"
proof -
  let ?e = "env0\<lparr>spread_analyzer_average := 0, orders_working := [stop_leg]\<rparr>"
  have z: "spread_analyzer_average ?e = 0" by simp
  have "orders_after (on_bar strategy0 ?e ''bar_type'' bar0) (orders_working ?e) = orders_working ?e"
    using C10_rejected_bar_no_trailing [of ?e strategy0 "''bar_type''" bar0] z by blast
  moreover have "check_trailing_stops strategy0 ?e bar0 (5 / 10000) (2 / 100000) =
      [Modify_order stop_leg 50000 (px 110050)]"
    by (simp add: handler_defs Let_def example_defs Price_defs)
  ultimately show ?thesis by simp
qed

subsection \<open>The entry order\<close>

text \<open>
  Claim C9: the entry leg of every bracket order the handler submits is a stop order,
  good till date, that expires one minute (\<open>60000000\<close> microseconds) after the
  timestamp of the bar.
\<close>

theorem C9_entry_expires_after_one_minute:
  assumes "Submit_bracket_order b \<in> set (on_bar s e bar_type bar)"
  shows "order_type (entry_order b) = STOP \<and> time_in_force (entry_order b) = GTD \<and>
         expire_time (entry_order b) = timestamp bar + 60000000"
proof -
  let ?slb = "atr_value e * SL_atr_multiple s"
  let ?spb = "max (spread_analyzer_average e) (spread_analyzer_current e)"
  from on_bar_submit [OF assms]
  have "Submit_bracket_order b \<in> set (check_signal s e bar ?slb ?spb)" by blast
  from check_signal_submit [OF this]
  consider "Submit_bracket_order b \<in> set (enter_long s e bar ?slb ?spb)"
    | "Submit_bracket_order b \<in> set (enter_short s e bar ?slb ?spb)"
    by (auto split: if_splits)
  then show ?thesis
  proof cases
    case 1
    then show ?thesis
      using enter_long_submit(2,5,6) [OF 1] by (simp add: timedelta_def)
  next
    case 2
    then show ?thesis
      using enter_short_submit(2,5,6) [OF 2] by (simp add: timedelta_def)
  qed
qed

text \<open>The bracket order submitted on \<open>bar0\<close>.\<close>

theorem C9_entry_expires_after_one_minute_witness:
  "Submit_bracket_order
        \<lparr>entry_order = \<lparr>order_type = STOP, symbol = ''AUD/USD'', order_side = BUY,
           entry_quantity = 20000, entry_price = px 110505, time_in_force = GTD,
           expire_time = 1600000060000000\<rparr>,
         stop_loss = px 110050, take_profit = px 110960\<rparr>
     \<in> set (on_bar strategy0 env0 ''bar_type'' bar0) \<and>
   timestamp bar0 = 1600000000000000 \<and>
   expire_time (entry_order \<lparr>entry_order = \<lparr>order_type = STOP, symbol = ''AUD/USD'', order_side = BUY,
           entry_quantity = 20000, entry_price = px 110505, time_in_force = GTD,
           expire_time = 1600000060000000\<rparr>,
         stop_loss = px 110050, take_profit = px 110960\<rparr>) = timestamp bar0 + 60000000"
proof -
  let ?b = "\<lparr>entry_order = \<lparr>order_type = STOP, symbol = ''AUD/USD'', order_side = BUY,
           entry_quantity = 20000, entry_price = px 110505, time_in_force = GTD,
           expire_time = 1600000060000000\<rparr>,
         stop_loss = px 110050, take_profit = px 110960\<rparr>"
  have "on_bar strategy0 env0 ''bar_type'' bar0 =
     [Log_info ''Received Bar'',
      Calculate \<lparr>arg_equity = 100000, arg_risk_bp = 10, arg_entry = px 110505,
        arg_stop_loss = px 110050, arg_exchange_rate = 1, arg_commission_rate_bp = 15 / 100,
        arg_hard_limit = 20000000, arg_units = 1, arg_unit_batch_size = 10000\<rparr>,
      Submit_bracket_order ?b]"
    apply (simp add: handler_defs Let_def example_defs enter_long_trace)
    apply (simp add: entry_defs Price_defs FixedRiskSizer_calculate_def Let_def)
    done
  then have m: "Submit_bracket_order ?b \<in> set (on_bar strategy0 env0 ''bar_type'' bar0)"
    by simp
  from C9_entry_expires_after_one_minute [OF m] m show ?thesis
    by (simp add: bar0_def)
qed

end
